theory Spec2Isabelle
  imports Complex_Main "HOL-Library.Log_Nat"
begin

section \<open>The trial sequencer of \<^verbatim>\<open>ant-v.py\<close>\<close>

text \<open>
  The script runs one loop over the rows of a trial table. Each iteration draws a fixed
  sequence of screens, waits for a key, adds one row to the data file and shows feedback.
  The embedding keeps the loop body as it is written: Python values are a datatype,
  the stimulus objects are names with a mutable position, the screen is a canvas that is
  committed by every \<^verbatim>\<open>present(..., update=True)\<close>, and every effect the
  outside can see (a committed frame, a clock wait, the keyboard wait, a data row) is
  appended to a trace. A raise is a value carrying the state that was reached.
\<close>

subsection \<open>Python values\<close>

text \<open>
  The cells of a pandas row and the entries of a data row. A Python float is the real
  number it stands for (no NaN, no infinity); the rounding of float arithmetic is made
  explicit below.
\<close>

datatype pyval = PNone | PBool bool | PInt int | PFloat real | PStr string

text \<open>Truth value of \<^verbatim>\<open>if x:\<close>.\<close>

fun truthy :: "pyval \<Rightarrow> bool" where
  "truthy PNone = False"
| "truthy (PBool b) = b"
| "truthy (PInt n) = (n \<noteq> 0)"
| "truthy (PFloat r) = (r \<noteq> 0)"
| "truthy (PStr s) = (s \<noteq> [])"

text \<open>\<^verbatim>\<open>x == 'literal'\<close>: only a string with the same characters is equal.\<close>

fun py_eq_str :: "pyval \<Rightarrow> string \<Rightarrow> bool" where
  "py_eq_str (PStr s) lit = (s = lit)"
| "py_eq_str v lit = False"

subsection \<open>Constants\<close>

definition CUE_DISPLAY_DURATION :: int where "CUE_DISPLAY_DURATION = 100"
definition CUE_TARGET_INTERVAL :: int where "CUE_TARGET_INTERVAL = 400"
definition TARGET_DISPLAY_DURATION :: int where "TARGET_DISPLAY_DURATION = 200"
definition MAX_RESPONSE_DURATION :: int where "MAX_RESPONSE_DURATION = 1700"

text \<open>
  Key codes are integers. \<^verbatim>\<open>misc.constants.K_f\<close> and \<^verbatim>\<open>K_j\<close> are the
  library's codes of the keys f and j (their ASCII codes).
\<close>

type_synonym key = int

definition LEFT_RESPONSE_KEY :: key where "LEFT_RESPONSE_KEY = 102"
definition RIGHT_RESPONSE_KEY :: key where "RIGHT_RESPONSE_KEY = 106"

subsection \<open>Floating point\<close>

text \<open>
  A Python float is an IEEE double: 53 significant bits, exponents from \<open>-1022\<close>,
  results rounded to the nearest double, ties to the one with an even last bit.
  \<open>double_exponent x\<close> is the binary exponent of \<open>x\<close> (that of the subnormal
  range for smaller values), \<open>ulp x\<close> the distance between neighbouring doubles at
  \<open>x\<close>. Overflow to infinity is left out: the values of the script stay below 4096.
\<close>

definition round_half_even :: "real \<Rightarrow> int" where
  "round_half_even y =
     (let f = \<lfloor>y\<rfloor>
      in if y - of_int f < 1 / 2 then f
         else if 1 / 2 < y - of_int f then f + 1
         else if even f then f else f + 1)"

definition double_exponent :: "real \<Rightarrow> int" where
  "double_exponent x = max (bitlen \<lfloor>\<bar>x\<bar> * 2 ^ 1074\<rfloor> - 1075) (- 1022)"

definition ulp :: "real \<Rightarrow> real" where
  "ulp x = 2 powi (double_exponent x - 52)"

definition round_double :: "real \<Rightarrow> real" where
  "round_double x = of_int (round_half_even (x / ulp x)) * ulp x"

definition float_add :: "real \<Rightarrow> real \<Rightarrow> real" where
  "float_add x y = round_double (x + y)"

definition float_mul :: "real \<Rightarrow> real \<Rightarrow> real" where
  "float_mul x y = round_double (x * y)"

text \<open>
  The standard library's \<^verbatim>\<open>random.uniform(a, b)\<close> is
  \<^verbatim>\<open>a + (b - a) * random()\<close>, where \<^verbatim>\<open>random()\<close> returns a multiple
  \<open>r\<close> of \<open>1 / 2 ^ 53\<close> with \<open>0 \<le> r < 1\<close>. The integers \<open>a\<close> and
  \<open>b\<close> of the script convert to floats exactly.
\<close>

definition py_uniform :: "int \<Rightarrow> int \<Rightarrow> real \<Rightarrow> real" where
  "py_uniform a b r = float_add (of_int a) (float_mul (of_int (b - a)) r)"

subsection \<open>Stimuli, screen and trace\<close>

datatype stim =
    Cross_black | Cross_green | Cross_red
  | Arrows_cong_left | Arrows_cong_right | Arrows_incong_left | Arrows_incong_right
  | Box_bottom | Box_top | Cue_bottom | Cue_top

text \<open>The text of the four target lines, as given to \<^verbatim>\<open>stimuli.TextLine\<close>.\<close>

fun text_line :: "stim \<Rightarrow> string" where
  "text_line Arrows_cong_left = '' < < < < < ''"
| "text_line Arrows_cong_right = '' > > > > > ''"
| "text_line Arrows_incong_left = '' > > < > > ''"
| "text_line Arrows_incong_right = '' < < > < < ''"
| "text_line st = []"

definition fixation_crosses :: "string \<rightharpoonup> stim" where
  "fixation_crosses =
     map_of [(''neutral'', Cross_black), (''positive'', Cross_green), (''negative'', Cross_red)]"

text \<open>A drawn item is a stimulus with the position it had when it was drawn.\<close>

type_synonym item = "stim \<times> int list"

datatype event =
    Frame "item list"
  | ClockWait real
  | KeyboardWait "key list option" int
  | DataAdd "pyval list"

datatype error = AttributeError string | NameError string | KeyError string

text \<open>
  \<open>position\<close> is the store of the stimulus objects' positions (the objects are global
  and \<^verbatim>\<open>reposition\<close> mutates them); \<open>canvas\<close> is what has been drawn since the
  last clear; \<open>target_pos\<close> is the module-level variable of that name, unbound until
  its first assignment and kept from one iteration to the next.
\<close>

record state =
  position :: "stim \<Rightarrow> int list"
  canvas :: "item list"
  trace :: "event list"
  target_pos :: "int list option"

text \<open>
  The state after the stimuli are built, with \<open>shift\<close> the frame height that the
  script computes from the rendered text. The third component of the cue positions is
  in the source.
\<close>

fun initial_position :: "int \<Rightarrow> stim \<Rightarrow> int list" where
  "initial_position shift Box_bottom = [0, - shift]"
| "initial_position shift Box_top = [0, shift]"
| "initial_position shift Cue_bottom = [0, - shift, 0]"
| "initial_position shift Cue_top = [0, shift, 0]"
| "initial_position shift st = [0, 0]"

definition init_state :: "int \<Rightarrow> state" where
  "init_state shift =
     \<lparr>position = initial_position shift, canvas = [], trace = [], target_pos = None\<rparr>"

type_synonym 'a result = "(error \<times> state) + 'a"

definition and_then :: "'a result \<Rightarrow> ('a \<Rightarrow> 'b result) \<Rightarrow> 'b result" where
  "and_then r f = (case r of Inl e \<Rightarrow> Inl e | Inr x \<Rightarrow> f x)"

text \<open>
  \<^verbatim>\<open>stim.present(clear, update)\<close>: clearing empties the canvas, the stimulus is
  drawn at its current position, and an update commits the canvas as one frame. The
  canvas keeps its content after a commit, so a later \<^verbatim>\<open>present(clear=False)\<close>
  draws over the frame shown before.
\<close>

definition present :: "stim \<Rightarrow> bool \<Rightarrow> bool \<Rightarrow> state \<Rightarrow> state" where
  "present st clear update s =
     (let c = (if clear then [] else canvas s) @ [(st, position s st)]
      in s\<lparr>canvas := c, trace := (if update then trace s @ [Frame c] else trace s)\<rparr>)"

definition reposition :: "stim \<Rightarrow> int list \<Rightarrow> state \<Rightarrow> state" where
  "reposition st p s = s\<lparr>position := (position s)(st := p)\<rparr>"

definition clock_wait :: "real \<Rightarrow> state \<Rightarrow> state" where
  "clock_wait d s = s\<lparr>trace := trace s @ [ClockWait d]\<rparr>"

definition data_add :: "pyval list \<Rightarrow> state \<Rightarrow> state" where
  "data_add row s = s\<lparr>trace := trace s @ [DataAdd row]\<rparr>"

definition display :: "string \<Rightarrow> pyval \<Rightarrow> pyval \<Rightarrow> state \<Rightarrow> state result" where
  "display cross_type top_cued bottom_cued s =
     (case fixation_crosses cross_type of
        None \<Rightarrow> Inl (KeyError cross_type, s)
      | Some cross \<Rightarrow>
          (let s1 = present cross True False s;
               s2 = (if truthy top_cued then present Cue_top False False s1
                     else present Box_top False False s1)
           in Inr (if truthy bottom_cued then present Cue_bottom False True s2
                   else present Box_bottom False True s2)))"

subsection \<open>The keyboard\<close>

text \<open>
  Modelled from the spec: the Input Channel of section 6, which the script reaches
  through the library call \<^verbatim>\<open>exp.keyboard.wait(keys, duration)\<close>. The participant's
  key presses after the call are a chronological list of (milliseconds since the call,
  key). The call returns on the first press whose key is among \<open>keys\<close>, or on any
  press when no \<open>keys\<close> are given, with the key and the elapsed time; when that press
  does not come before \<open>duration\<close> it returns no key and no time.
\<close>

fun first_press :: "key list option \<Rightarrow> (int \<times> key) list \<Rightarrow> (int \<times> key) option" where
  "first_press keys [] = None"
| "first_press keys ((t, k) # ps) =
     (if (case keys of None \<Rightarrow> True | Some ks \<Rightarrow> k \<in> set ks) then Some (t, k)
      else first_press keys ps)"

definition keyboard_wait ::
  "key list option \<Rightarrow> int \<Rightarrow> (int \<times> key) list \<Rightarrow> key option \<times> int option" where
  "keyboard_wait keys duration presses =
     (case first_press keys presses of
        None \<Rightarrow> (None, None)
      | Some (t, k) \<Rightarrow> (if t < duration then (Some k, Some t) else (None, None)))"

subsection \<open>The trial table\<close>

text \<open>
  A row of \<^verbatim>\<open>trials.itertuples(index=False)\<close> is a named tuple: the cells in
  column order, each under its column's name. \<^verbatim>\<open>list(trial)\<close> is the cells,
  \<^verbatim>\<open>trial.name\<close> the first cell under that name.
\<close>

type_synonym trial = "(string \<times> pyval) list"

definition getattr :: "trial \<Rightarrow> string \<Rightarrow> state \<Rightarrow> pyval result" where
  "getattr trial name s =
     (case map_of trial name of None \<Rightarrow> Inl (AttributeError name, s) | Some v \<Rightarrow> Inr v)"

definition data_variable_names :: "string list \<Rightarrow> string list" where
  "data_variable_names columns = columns @ [''response_key'', ''reaction_time'']"

text \<open>
  What one iteration takes from outside: the float \<^verbatim>\<open>random.uniform(0, 2000)\<close>
  returned, and the key presses after the keyboard wait starts. Line 170 adds the float
  to the integer 1500, which is a float addition.
\<close>

record env =
  jitter :: real
  presses :: "(int \<times> key) list"

subsection \<open>The loop body\<close>

definition select_target :: "pyval \<Rightarrow> pyval \<Rightarrow> stim" where
  "select_target arrow_direction flanker_congruency =
     (if py_eq_str arrow_direction ''left'' then
        (if py_eq_str flanker_congruency ''cong'' then Arrows_cong_left
         else Arrows_incong_left)
      else
        (if py_eq_str flanker_congruency ''cong'' then Arrows_cong_right
         else Arrows_incong_right))"

text \<open>Lines 190 to 193: two separate \<^verbatim>\<open>if\<close>s, no \<^verbatim>\<open>else\<close>.\<close>

definition assign_target_pos :: "int \<Rightarrow> pyval \<Rightarrow> state \<Rightarrow> state" where
  "assign_target_pos shift target_position s =
     (let s1 = (if py_eq_str target_position ''down''
                then s\<lparr>target_pos := Some [0, - shift]\<rparr> else s)
      in if py_eq_str target_position ''up''
         then s1\<lparr>target_pos := Some [0, shift]\<rparr> else s1)"

definition read_target_pos :: "state \<Rightarrow> int list result" where
  "read_target_pos s =
     (case target_pos s of None \<Rightarrow> Inl (NameError ''target_pos'', s) | Some p \<Rightarrow> Inr p)"

definition key_val :: "key option \<Rightarrow> pyval" where
  "key_val key = (case key of None \<Rightarrow> PNone | Some k \<Rightarrow> PInt k)"

definition rt_val :: "int option \<Rightarrow> pyval" where
  "rt_val rt = (case rt of None \<Rightarrow> PNone | Some t \<Rightarrow> PInt t)"

text \<open>Lines 202 and 203.\<close>

definition adjust_rt :: "int option \<Rightarrow> int option" where
  "adjust_rt rt = (case rt of None \<Rightarrow> None | Some t \<Rightarrow> Some (t + TARGET_DISPLAY_DURATION))"

text \<open>The condition of lines 207 and 208.\<close>

definition feedback_cross_type :: "key option \<Rightarrow> pyval \<Rightarrow> string" where
  "feedback_cross_type key arrow_direction =
     (if (key = Some LEFT_RESPONSE_KEY \<and> py_eq_str arrow_direction ''left'')
         \<or> (key = Some RIGHT_RESPONSE_KEY \<and> py_eq_str arrow_direction ''right'')
      then ''positive'' else ''negative'')"

text \<open>Lines 169 to 175: baseline, cue, gap.\<close>

definition cue_phase :: "env \<Rightarrow> trial \<Rightarrow> state \<Rightarrow> state result" where
  "cue_phase e trial s0 =
     and_then (display ''neutral'' (PBool False) (PBool False) s0) (\<lambda>s1.
     let s2 = clock_wait (float_add 1500 (jitter e)) s1 in
     and_then (getattr trial ''cue_up'' s2) (\<lambda>cue_up.
     and_then (getattr trial ''cue_down'' s2) (\<lambda>cue_down.
     and_then (display ''neutral'' cue_up cue_down s2) (\<lambda>s3.
     let s4 = clock_wait (of_int CUE_DISPLAY_DURATION) s3 in
     and_then (display ''neutral'' (PBool False) (PBool False) s4) (\<lambda>s5.
     Inr (clock_wait (of_int CUE_TARGET_INTERVAL) s5))))))"

text \<open>
  Lines 177 to 199: the target is chosen, moved, drawn over a fresh neutral screen and
  replaced by the neutral screen. Both branches of line 178 read
  \<^verbatim>\<open>trial.flanker_congruency\<close> next, so it is read once here. The result carries
  the value of \<^verbatim>\<open>trial.arrow_direction\<close> for the feedback.
\<close>

definition target_phase :: "int \<Rightarrow> trial \<Rightarrow> state \<Rightarrow> (pyval \<times> state) result" where
  "target_phase shift trial s0 =
     and_then (getattr trial ''arrow_direction'' s0) (\<lambda>arrow_direction.
     and_then (getattr trial ''flanker_congruency'' s0) (\<lambda>flanker_congruency.
     let target = select_target arrow_direction flanker_congruency in
     and_then (getattr trial ''target_position'' s0) (\<lambda>target_position.
     let s1 = assign_target_pos shift target_position s0 in
     and_then (read_target_pos s1) (\<lambda>p.
     let s2 = reposition target p s1 in
     and_then (display ''neutral'' (PBool False) (PBool False) s2) (\<lambda>s3.
     let s4 = present target False True s3;
         s5 = clock_wait (of_int TARGET_DISPLAY_DURATION) s4
     in and_then (display ''neutral'' (PBool False) (PBool False) s5) (\<lambda>s6.
     Inr (arrow_direction, s6)))))))"

text \<open>
  Lines 201 to 213: the keyboard wait, the data row, the feedback. The named tuple is
  immutable, so the second and third reads of \<^verbatim>\<open>trial.arrow_direction\<close> give the
  value read at line 178.
\<close>

definition response_phase :: "env \<Rightarrow> trial \<Rightarrow> pyval \<Rightarrow> state \<Rightarrow> state result" where
  "response_phase e trial arrow_direction s0 =
     (let (key, rt) = keyboard_wait None MAX_RESPONSE_DURATION (presses e);
          s1 = s0\<lparr>trace := trace s0 @ [KeyboardWait None MAX_RESPONSE_DURATION]\<rparr>;
          rt' = adjust_rt rt;
          s2 = data_add (map snd trial @ [key_val key, rt_val rt']) s1
      in and_then (display (feedback_cross_type key arrow_direction)
                     (PBool False) (PBool False) s2) (\<lambda>s3.
         Inr (clock_wait 400 s3)))"

definition run_trial :: "int \<Rightarrow> env \<Rightarrow> trial \<Rightarrow> state \<Rightarrow> state result" where
  "run_trial shift e trial s =
     and_then (cue_phase e trial s) (\<lambda>s1.
     and_then (target_phase shift trial s1) (\<lambda>(arrow_direction, s2).
     response_phase e trial arrow_direction s2))"

text \<open>The loop of line 168: it stops at the first raise.\<close>

fun run_trials :: "int \<Rightarrow> (env \<times> trial) list \<Rightarrow> state \<Rightarrow> state result" where
  "run_trials shift [] s = Inr s"
| "run_trials shift ((e, trial) # rest) s =
     and_then (run_trial shift e trial s) (run_trials shift rest)"

subsection \<open>Observing a run\<close>

definition final :: "state result \<Rightarrow> state" where
  "final r = (case r of Inl (err, s) \<Rightarrow> s | Inr s \<Rightarrow> s)"

definition raised :: "'a result \<Rightarrow> error option" where
  "raised r = (case r of Inl (err, s) \<Rightarrow> Some err | Inr x \<Rightarrow> None)"

text \<open>The events one iteration appends to the trace, whether it completes or raises.\<close>

definition trial_events :: "int \<Rightarrow> env \<Rightarrow> trial \<Rightarrow> state \<Rightarrow> event list" where
  "trial_events shift e trial s =
     drop (length (trace s)) (trace (final (run_trial shift e trial s)))"

fun frames :: "event list \<Rightarrow> item list list" where
  "frames [] = []"
| "frames (Frame c # evs) = c # frames evs"
| "frames (ev # evs) = frames evs"

fun data_rows :: "event list \<Rightarrow> pyval list list" where
  "data_rows [] = []"
| "data_rows (DataAdd row # evs) = row # data_rows evs"
| "data_rows (ev # evs) = data_rows evs"

fun keyboard_waits :: "event list \<Rightarrow> (key list option \<times> int) list" where
  "keyboard_waits [] = []"
| "keyboard_waits (KeyboardWait keys d # evs) = (keys, d) # keyboard_waits evs"
| "keyboard_waits (ev # evs) = keyboard_waits evs"

text \<open>
  The spec's names for the committed frames (its VisualState, section 3): a cross of one
  of three colours between the two frames, one or both frames replaced by a cue, or the
  neutral screen with a target line drawn over it.
\<close>

datatype colour = Neutral | Positive | Negative

datatype visual_state =
    Fixation colour
  | Fixation_cueTop
  | Fixation_cueBottom
  | Fixation_cueBoth
  | Fixation_target stim "int list"

fun cross_colour :: "stim \<Rightarrow> colour option" where
  "cross_colour Cross_black = Some Neutral"
| "cross_colour Cross_green = Some Positive"
| "cross_colour Cross_red = Some Negative"
| "cross_colour st = None"

fun visual_state_of :: "item list \<Rightarrow> visual_state option" where
  "visual_state_of [(c, pc), (t, pt), (b, pb)] =
     (if t = Box_top \<and> b = Box_bottom then map_option Fixation (cross_colour c)
      else if c = Cross_black \<and> t = Cue_top \<and> b = Box_bottom then Some Fixation_cueTop
      else if c = Cross_black \<and> t = Box_top \<and> b = Cue_bottom then Some Fixation_cueBottom
      else if c = Cross_black \<and> t = Cue_top \<and> b = Cue_bottom then Some Fixation_cueBoth
      else None)"
| "visual_state_of [(c, pc), (t, pt), (b, pb), (a, p)] =
     (if c = Cross_black \<and> t = Box_top \<and> b = Box_bottom \<and> text_line a \<noteq> []
      then Some (Fixation_target a p) else None)"
| "visual_state_of its = None"

text \<open>
  The direction each response key stands for: the pairs of the condition of lines 207
  and 208.
\<close>

definition bound_direction :: "key \<Rightarrow> string option" where
  "bound_direction k =
     (if k = LEFT_RESPONSE_KEY then Some ''left''
      else if k = RIGHT_RESPONSE_KEY then Some ''right'' else None)"

text \<open>
  The spec's classification (section 4.2): a response is correct when the pressed key's
  bound direction is the trial's arrow direction.
\<close>

definition correct_response :: "key option \<Rightarrow> pyval \<Rightarrow> bool" where
  "correct_response key ad =
     (case key of None \<Rightarrow> False
      | Some k \<Rightarrow> (case bound_direction k of None \<Rightarrow> False | Some d \<Rightarrow> ad = PStr d))"

text \<open>
  Reading a target line: the arrows stand at the odd indices of the text, the central
  one at index 5.
\<close>

definition central_arrow :: "stim \<Rightarrow> char" where
  "central_arrow st = text_line st ! 5"

definition flankers :: "stim \<Rightarrow> char list" where
  "flankers st = map (\<lambda>i. text_line st ! i) [1, 3, 7, 9]"

definition points_right :: "stim \<Rightarrow> bool" where
  "points_right st = (central_arrow st = CHR ''>'')"

definition incongruent :: "stim \<Rightarrow> bool" where
  "incongruent st = list_all (\<lambda>f. f \<noteq> central_arrow st) (flankers st)"

text \<open>What an iteration still does after it has added its data row.\<close>

definition events_after_record :: "event list \<Rightarrow> event list" where
  "events_after_record evs =
     tl (dropWhile (\<lambda>ev. case ev of DataAdd row \<Rightarrow> False | _ \<Rightarrow> True) evs)"

text \<open>A table with the five columns the loop reads, for the examples.\<close>

definition example_trial :: trial where
  "example_trial =
     [(''cue_up'', PBool True), (''cue_down'', PBool False),
      (''arrow_direction'', PStr ''left''), (''flanker_congruency'', PStr ''cong''),
      (''target_position'', PStr ''up'')]"

subsection \<open>The events of one iteration\<close>

text \<open>The three items \<open>display\<close> draws.\<close>

definition screen :: "(stim \<Rightarrow> int list) \<Rightarrow> stim \<Rightarrow> pyval \<Rightarrow> pyval \<Rightarrow> item list" where
  "screen pos cross top_cued bottom_cued =
     [(cross, pos cross),
      (if truthy top_cued then (Cue_top, pos Cue_top) else (Box_top, pos Box_top)),
      (if truthy bottom_cued then (Cue_bottom, pos Cue_bottom)
       else (Box_bottom, pos Box_bottom))]"

definition cue_events :: "(stim \<Rightarrow> int list) \<Rightarrow> env \<Rightarrow> pyval \<Rightarrow> pyval \<Rightarrow> event list" where
  "cue_events pos e cu cd =
     [Frame (screen pos Cross_black (PBool False) (PBool False)),
      ClockWait (float_add 1500 (jitter e)),
      Frame (screen pos Cross_black cu cd),
      ClockWait (of_int CUE_DISPLAY_DURATION),
      Frame (screen pos Cross_black (PBool False) (PBool False)),
      ClockWait (of_int CUE_TARGET_INTERVAL)]"

definition target_events :: "(stim \<Rightarrow> int list) \<Rightarrow> stim \<Rightarrow> int list \<Rightarrow> event list" where
  "target_events pos target p =
     [Frame (screen pos Cross_black (PBool False) (PBool False)),
      Frame (screen pos Cross_black (PBool False) (PBool False) @ [(target, p)]),
      ClockWait (of_int TARGET_DISPLAY_DURATION),
      Frame (screen pos Cross_black (PBool False) (PBool False))]"

definition feedback_cross :: "key option \<Rightarrow> pyval \<Rightarrow> stim" where
  "feedback_cross key ad =
     (if feedback_cross_type key ad = ''positive'' then Cross_green else Cross_red)"

definition response_events :: "(stim \<Rightarrow> int list) \<Rightarrow> env \<Rightarrow> trial \<Rightarrow> pyval \<Rightarrow> event list" where
  "response_events pos e trial ad =
     (let (key, rt) = keyboard_wait None MAX_RESPONSE_DURATION (presses e) in
      [KeyboardWait None MAX_RESPONSE_DURATION,
       DataAdd (map snd trial @ [key_val key, rt_val (adjust_rt rt)]),
       Frame (screen pos (feedback_cross key ad) (PBool False) (PBool False)),
       ClockWait 400])"

text \<open>
  An iteration completes when the five columns exist and \<^verbatim>\<open>target_pos\<close> is bound
  at line 195, by this iteration or by an earlier one.
\<close>

definition completes :: "int \<Rightarrow> trial \<Rightarrow> state \<Rightarrow> bool" where
  "completes shift trial s =
     (map_of trial ''cue_up'' \<noteq> None \<and> map_of trial ''cue_down'' \<noteq> None
      \<and> map_of trial ''arrow_direction'' \<noteq> None
      \<and> map_of trial ''flanker_congruency'' \<noteq> None
      \<and> (case map_of trial ''target_position'' of
            None \<Rightarrow> False
          | Some tp \<Rightarrow> target_pos (assign_target_pos shift tp s) \<noteq> None))"

section \<open>Lemmas on the phases\<close>

lemma fixation_crosses_simps:
  "fixation_crosses ''neutral'' = Some Cross_black"
  "fixation_crosses ''positive'' = Some Cross_green"
  "fixation_crosses ''negative'' = Some Cross_red"
  by (simp_all add: fixation_crosses_def)

lemma display_Inr:
  assumes "fixation_crosses ct = Some c"
  shows "display ct t b s =
           Inr (s\<lparr>canvas := screen (position s) c t b,
                  trace := trace s @ [Frame (screen (position s) c t b)]\<rparr>)"
  using assms by (simp add: display_def present_def screen_def Let_def)

lemmas display_neutral = display_Inr [OF fixation_crosses_simps(1)]

lemma select_target_cases:
  "select_target ad fc
     \<in> {Arrows_cong_left, Arrows_incong_left, Arrows_cong_right, Arrows_incong_right}"
  by (simp add: select_target_def)

lemma screen_upd:
  assumes "st \<in> {Arrows_cong_left, Arrows_incong_left, Arrows_cong_right, Arrows_incong_right}"
    and "c \<in> {Cross_black, Cross_green, Cross_red}"
  shows "screen (pos(st := p)) c t b = screen pos c t b"
  using assms by (auto simp add: screen_def)

lemma cue_phase_Inr:
  assumes "map_of trial ''cue_up'' = Some cu" "map_of trial ''cue_down'' = Some cd"
  shows "\<exists>s'. cue_phase e trial s = Inr s'
           \<and> trace s' = trace s @ cue_events (position s) e cu cd
           \<and> position s' = position s \<and> target_pos s' = target_pos s"
  using assms
  by (simp add: cue_phase_def and_then_def display_neutral getattr_def clock_wait_def
       cue_events_def Let_def)

lemma cue_phase_Inl:
  assumes "map_of trial ''cue_up'' = None \<or> map_of trial ''cue_down'' = None"
  shows "\<exists>err s'. cue_phase e trial s = Inl (err, s') \<and>
           trace s' = trace s
              @ [Frame (screen (position s) Cross_black (PBool False) (PBool False)),
                 ClockWait (float_add 1500 (jitter e))]"
  using assms
  by (auto simp add: cue_phase_def and_then_def display_neutral getattr_def clock_wait_def
       Let_def split: option.splits)

lemma target_phase_Inr:
  assumes "map_of trial ''arrow_direction'' = Some ad"
    "map_of trial ''flanker_congruency'' = Some fc"
    "map_of trial ''target_position'' = Some tp"
    "target_pos (assign_target_pos shift tp s) = Some p"
  shows "\<exists>s'. target_phase shift trial s = Inr (ad, s')
           \<and> trace s' = trace s @ target_events (position s) (select_target ad fc) p
           \<and> position s' = (position s)(select_target ad fc := p)
           \<and> target_pos s' = Some p"
  using assms select_target_cases [of ad fc]
  apply (simp add: target_phase_def and_then_def display_neutral getattr_def clock_wait_def
      target_events_def Let_def read_target_pos_def reposition_def present_def screen_upd)
  apply (simp add: assign_target_pos_def Let_def split: if_splits)
  done

text \<open>Every raise of the target phase comes before its first effect.\<close>

lemma target_phase_Inl:
  assumes "map_of trial ''arrow_direction'' = None
      \<or> map_of trial ''flanker_congruency'' = None
      \<or> (case map_of trial ''target_position'' of
            None \<Rightarrow> True
          | Some tp \<Rightarrow> target_pos (assign_target_pos shift tp s) = None)"
  shows "\<exists>err s'. target_phase shift trial s = Inl (err, s') \<and> trace s' = trace s"
  using assms
  by (auto simp add: target_phase_def and_then_def getattr_def read_target_pos_def
       assign_target_pos_def Let_def split: option.splits if_splits)

lemma response_phase_Inr:
  "\<exists>s'. response_phase e trial ad s = Inr s'
         \<and> trace s' = trace s @ response_events (position s) e trial ad
         \<and> position s' = position s \<and> target_pos s' = target_pos s"
  by (simp add: response_phase_def response_events_def and_then_def display_Inr
       fixation_crosses_simps feedback_cross_type_def feedback_cross_def data_add_def
       clock_wait_def Let_def split: prod.splits)

section \<open>Lemmas on one iteration\<close>

lemma frames_append: "frames (xs @ ys) = frames xs @ frames ys"
  by (induction xs rule: frames.induct) simp_all

lemma data_rows_append: "data_rows (xs @ ys) = data_rows xs @ data_rows ys"
  by (induction xs rule: data_rows.induct) simp_all

lemma keyboard_waits_append: "keyboard_waits (xs @ ys) = keyboard_waits xs @ keyboard_waits ys"
  by (induction xs rule: keyboard_waits.induct) simp_all

lemma target_pos_assign:
  "target_pos (assign_target_pos shift tp s) =
     (if py_eq_str tp ''up'' then Some [0, shift]
      else if py_eq_str tp ''down'' then Some [0, - shift] else target_pos s)"
  by (simp add: assign_target_pos_def Let_def)

lemma run_trial_Inr:
  assumes "map_of trial ''cue_up'' = Some cu" "map_of trial ''cue_down'' = Some cd"
    "map_of trial ''arrow_direction'' = Some ad"
    "map_of trial ''flanker_congruency'' = Some fc"
    "map_of trial ''target_position'' = Some tp"
    "target_pos (assign_target_pos shift tp s) = Some p"
  shows "\<exists>s'. run_trial shift e trial s = Inr s'
           \<and> trace s' = trace s @ cue_events (position s) e cu cd
                @ target_events (position s) (select_target ad fc) p
                @ response_events (position s) e trial ad
           \<and> target_pos s' = Some p"
proof -
  obtain s1 where s1: "cue_phase e trial s = Inr s1"
    "trace s1 = trace s @ cue_events (position s) e cu cd"
    "position s1 = position s" "target_pos s1 = target_pos s"
    using cue_phase_Inr [OF assms(1,2)] by blast
  have "target_pos (assign_target_pos shift tp s1) = target_pos (assign_target_pos shift tp s)"
    using s1(4) by (simp add: target_pos_assign)
  with assms(6) have "target_pos (assign_target_pos shift tp s1) = Some p"
    by simp
  then obtain s2 where s2: "target_phase shift trial s1 = Inr (ad, s2)"
    "trace s2 = trace s1 @ target_events (position s1) (select_target ad fc) p"
    "position s2 = (position s1)(select_target ad fc := p)" "target_pos s2 = Some p"
    using target_phase_Inr [OF assms(3,4,5)] by blast
  obtain s3 where s3: "response_phase e trial ad s2 = Inr s3"
    "trace s3 = trace s2 @ response_events (position s2) e trial ad"
    "target_pos s3 = target_pos s2"
    using response_phase_Inr by blast
  have "response_events (position s2) e trial ad = response_events (position s) e trial ad"
    using select_target_cases [of ad fc]
    by (simp add: response_events_def s2(3) s1(3) screen_upd feedback_cross_def split: prod.splits)
  then show ?thesis
    using s1 s2 s3 by (simp add: run_trial_def and_then_def)
qed

lemma run_trial_Inl:
  assumes "\<not> completes shift trial s"
  shows "\<exists>err s'. run_trial shift e trial s = Inl (err, s')
           \<and> data_rows (drop (length (trace s)) (trace s')) = []"
proof (cases "map_of trial ''cue_up'' = None \<or> map_of trial ''cue_down'' = None")
  case True
  then show ?thesis
    using cue_phase_Inl [OF True, of e s]
    by (auto simp add: run_trial_def and_then_def)
next
  case False
  then obtain cu cd where f: "map_of trial ''cue_up'' = Some cu" "map_of trial ''cue_down'' = Some cd"
    by auto
  obtain s1 where s1: "cue_phase e trial s = Inr s1"
    "trace s1 = trace s @ cue_events (position s) e cu cd"
    "position s1 = position s" "target_pos s1 = target_pos s"
    using cue_phase_Inr [OF f] by blast
  have eq: "target_pos (assign_target_pos shift tp s1) = target_pos (assign_target_pos shift tp s)" for tp
    using s1(4) by (simp add: target_pos_assign)
  have "map_of trial ''arrow_direction'' = None
      \<or> map_of trial ''flanker_congruency'' = None
      \<or> (case map_of trial ''target_position'' of
            None \<Rightarrow> True
          | Some tp \<Rightarrow> target_pos (assign_target_pos shift tp s1) = None)"
    using assms f by (auto simp add: completes_def eq split: option.splits)
  from target_phase_Inl [OF this]
  obtain err s2 where "target_phase shift trial s1 = Inl (err, s2)" "trace s2 = trace s1"
    by blast
  then show ?thesis
    using s1 by (simp add: run_trial_def and_then_def cue_events_def)
qed

lemma completes_iff: "raised (run_trial shift e trial s) = None \<longleftrightarrow> completes shift trial s"
proof
  assume "raised (run_trial shift e trial s) = None"
  then show "completes shift trial s"
    using run_trial_Inl [of shift trial s e]
    by (cases "completes shift trial s") (auto simp add: raised_def)
next
  assume "completes shift trial s"
  then obtain cu cd ad fc tp p where "map_of trial ''cue_up'' = Some cu" "map_of trial ''cue_down'' = Some cd"
    "map_of trial ''arrow_direction'' = Some ad"
    "map_of trial ''flanker_congruency'' = Some fc"
    "map_of trial ''target_position'' = Some tp"
    "target_pos (assign_target_pos shift tp s) = Some p"
    by (auto simp add: completes_def split: option.splits)
  from run_trial_Inr [OF this, of e] show "raised (run_trial shift e trial s) = None"
    by (auto simp add: raised_def)
qed

lemma trial_events_complete:
  assumes "map_of trial ''cue_up'' = Some cu" "map_of trial ''cue_down'' = Some cd"
    "map_of trial ''arrow_direction'' = Some ad"
    "map_of trial ''flanker_congruency'' = Some fc"
    "map_of trial ''target_position'' = Some tp"
    "target_pos (assign_target_pos shift tp s) = Some p"
  shows "trial_events shift e trial s =
           cue_events (position s) e cu cd
           @ target_events (position s) (select_target ad fc) p
           @ response_events (position s) e trial ad"
  using run_trial_Inr [OF assms, of e] by (auto simp add: trial_events_def final_def)

lemma trial_events_raise:
  assumes "\<not> completes shift trial s"
  shows "data_rows (trial_events shift e trial s) = []"
  using run_trial_Inl [OF assms, of e] by (auto simp add: trial_events_def final_def)

lemma completesE:
  assumes "completes shift trial s"
  obtains cu cd ad fc tp p where "map_of trial ''cue_up'' = Some cu" "map_of trial ''cue_down'' = Some cd"
    "map_of trial ''arrow_direction'' = Some ad"
    "map_of trial ''flanker_congruency'' = Some fc"
    "map_of trial ''target_position'' = Some tp"
    "target_pos (assign_target_pos shift tp s) = Some p"
  using assms by (auto simp add: completes_def split: option.splits)

lemma keyboard_wait_cases:
  "keyboard_wait keys d ps = (None, None) \<or> (\<exists>k t. keyboard_wait keys d ps = (Some k, Some t) \<and> t < d)"
  by (auto simp add: keyboard_wait_def split: option.splits)

lemma valid_position_bound:
  assumes "py_eq_str tp ''up'' \<or> py_eq_str tp ''down''"
  shows "target_pos (assign_target_pos shift tp s) = Some (if py_eq_str tp ''up'' then [0, shift] else [0, - shift])"
  using assms by (auto simp add: target_pos_assign)

lemma example_fields:
  "map_of example_trial ''cue_up'' = Some (PBool True)"
  "map_of example_trial ''cue_down'' = Some (PBool False)"
  "map_of example_trial ''arrow_direction'' = Some (PStr ''left'')"
  "map_of example_trial ''flanker_congruency'' = Some (PStr ''cong'')"
  "map_of example_trial ''target_position'' = Some (PStr ''up'')"
  by (simp_all add: example_trial_def)

lemma example_completes: "completes shift example_trial s"
  by (simp add: completes_def example_fields target_pos_assign)

lemma example_events:
  "trial_events shift e example_trial s =
     cue_events (position s) e (PBool True) (PBool False)
     @ target_events (position s) Arrows_cong_left [0, shift]
     @ response_events (position s) e example_trial (PStr ''left'')"
  using trial_events_complete [OF example_fields, of shift s "[0, shift]" e]
  by (simp add: target_pos_assign select_target_def)

lemma data_rows_events:
  "data_rows (cue_events pos e cu cd) = []"
  "data_rows (target_events pos a p) = []"
  "data_rows (response_events pos e trial ad) =
     [map snd trial @ [key_val (fst (keyboard_wait None MAX_RESPONSE_DURATION (presses e))),
                       rt_val (adjust_rt (snd (keyboard_wait None MAX_RESPONSE_DURATION (presses e))))]]"
  by (simp_all add: cue_events_def target_events_def response_events_def split: prod.splits)

lemma frames_events:
  "frames (cue_events pos e cu cd) =
     [screen pos Cross_black (PBool False) (PBool False), screen pos Cross_black cu cd,
      screen pos Cross_black (PBool False) (PBool False)]"
  "frames (target_events pos a p) =
     [screen pos Cross_black (PBool False) (PBool False),
      screen pos Cross_black (PBool False) (PBool False) @ [(a, p)],
      screen pos Cross_black (PBool False) (PBool False)]"
  "frames (response_events pos e trial ad) =
     [screen pos (feedback_cross (fst (keyboard_wait None MAX_RESPONSE_DURATION (presses e))) ad)
        (PBool False) (PBool False)]"
  by (simp_all add: cue_events_def target_events_def response_events_def split: prod.splits)

lemma keyboard_waits_events:
  "keyboard_waits (cue_events pos e cu cd) = []"
  "keyboard_waits (target_events pos a p) = []"
  "keyboard_waits (response_events pos e trial ad) = [(None, MAX_RESPONSE_DURATION)]"
  by (simp_all add: cue_events_def target_events_def response_events_def split: prod.splits)

lemma visual_state_of_screen:
  "visual_state_of (screen pos c (PBool False) (PBool False)) = map_option Fixation (cross_colour c)"
  "truthy cu \<Longrightarrow> \<not> truthy cd \<Longrightarrow> visual_state_of (screen pos Cross_black cu cd) = Some Fixation_cueTop"
  "visual_state_of (screen pos Cross_black (PBool False) (PBool False) @ [(select_target ad fc, p)])
     = Some (Fixation_target (select_target ad fc) p)"
  using select_target_cases [of ad fc]
  by (auto simp add: screen_def)

lemma feedback_colour:
  "cross_colour (feedback_cross key ad) = Some (if correct_response key ad then Positive else Negative)"
  by (cases ad)
     (auto simp add: feedback_cross_def feedback_cross_type_def correct_response_def
        bound_direction_def LEFT_RESPONSE_KEY_def RIGHT_RESPONSE_KEY_def split: option.splits)

lemma select_target_reading:
  "\<not> py_eq_str ad ''left'' \<Longrightarrow> points_right (select_target ad fc)"
  "\<not> py_eq_str fc ''cong'' \<Longrightarrow> incongruent (select_target ad fc)"
  by (simp_all add: select_target_def points_right_def incongruent_def central_arrow_def flankers_def)

lemma example_trace:
  "trial_events 40 e example_trial (init_state 40) =
     [Frame [(Cross_black, [0, 0]), (Box_top, [0, 40]), (Box_bottom, [0, - 40])],
      ClockWait (float_add 1500 (jitter e)),
      Frame [(Cross_black, [0, 0]), (Cue_top, [0, 40, 0]), (Box_bottom, [0, - 40])],
      ClockWait 100,
      Frame [(Cross_black, [0, 0]), (Box_top, [0, 40]), (Box_bottom, [0, - 40])],
      ClockWait 400,
      Frame [(Cross_black, [0, 0]), (Box_top, [0, 40]), (Box_bottom, [0, - 40])],
      Frame [(Cross_black, [0, 0]), (Box_top, [0, 40]), (Box_bottom, [0, - 40]),
             (Arrows_cong_left, [0, 40])],
      ClockWait 200,
      Frame [(Cross_black, [0, 0]), (Box_top, [0, 40]), (Box_bottom, [0, - 40])]]
     @ response_events (initial_position 40) e example_trial (PStr ''left'')"
  by (simp add: example_events cue_events_def target_events_def screen_def init_state_def
        CUE_DISPLAY_DURATION_def CUE_TARGET_INTERVAL_def TARGET_DISPLAY_DURATION_def)

lemma example_response:
  "response_events (initial_position 40) \<lparr>jitter = j, presses = ps\<rparr> example_trial (PStr ''left'') =
     [KeyboardWait None 1700,
      DataAdd [PBool True, PBool False, PStr ''left'', PStr ''cong'', PStr ''up'',
               key_val (fst (keyboard_wait None 1700 ps)),
               rt_val (adjust_rt (snd (keyboard_wait None 1700 ps)))],
      Frame [(feedback_cross (fst (keyboard_wait None 1700 ps)) (PStr ''left''), [0, 0]),
             (Box_top, [0, 40]), (Box_bottom, [0, - 40])],
      ClockWait 400]"
  by (simp add: response_events_def example_trial_def screen_def MAX_RESPONSE_DURATION_def
        feedback_cross_def feedback_cross_type_def split: prod.splits)

text \<open>
  The two \<^verbatim>\<open>if\<close>s of lines 190 to 193 have no \<^verbatim>\<open>else\<close>: with a target
  position that is neither \<^verbatim>\<open>'up'\<close> nor \<^verbatim>\<open>'down'\<close> and no earlier
  assignment, line 195 raises a \<^verbatim>\<open>NameError\<close> after the baseline, the cue and
  the gap have been shown.
\<close>

lemma unbound_target_pos_raises:
  assumes "map_of trial ''cue_up'' = Some cu" "map_of trial ''cue_down'' = Some cd"
    "map_of trial ''arrow_direction'' = Some ad"
    "map_of trial ''flanker_congruency'' = Some fc"
    "map_of trial ''target_position'' = Some tp"
    "\<not> py_eq_str tp ''up''" "\<not> py_eq_str tp ''down''" "target_pos s = None"
  shows "raised (run_trial shift e trial s) = Some (NameError ''target_pos'')
       \<and> trial_events shift e trial s = cue_events (position s) e cu cd"
proof -
  obtain s1 where s1: "cue_phase e trial s = Inr s1"
    "trace s1 = trace s @ cue_events (position s) e cu cd"
    "position s1 = position s" "target_pos s1 = target_pos s"
    using cue_phase_Inr [OF assms(1,2)] by blast
  have "target_phase shift trial s1 = Inl (NameError ''target_pos'', s1)"
    using assms(3-8) s1(4)
    by (simp add: target_phase_def and_then_def getattr_def read_target_pos_def
          assign_target_pos_def Let_def)
  then show ?thesis
    using s1 by (simp add: run_trial_def and_then_def raised_def trial_events_def final_def)
qed

text \<open>
  With an assignment left by an earlier iteration, the same trial raises nothing and its
  target is drawn where the earlier target was.
\<close>

lemma stale_target_pos_reused:
  assumes "map_of trial ''cue_up'' = Some cu" "map_of trial ''cue_down'' = Some cd"
    "map_of trial ''arrow_direction'' = Some ad"
    "map_of trial ''flanker_congruency'' = Some fc"
    "map_of trial ''target_position'' = Some tp"
    "\<not> py_eq_str tp ''up''" "\<not> py_eq_str tp ''down''" "target_pos s = Some p"
  shows "raised (run_trial shift e trial s) = None
       \<and> visual_state_of (frames (trial_events shift e trial s) ! 4)
           = Some (Fixation_target (select_target ad fc) p)"
proof -
  have p: "target_pos (assign_target_pos shift tp s) = Some p"
    using assms(6-8) by (simp add: target_pos_assign)
  have "completes shift trial s"
    using assms(1-5) p by (simp add: completes_def)
  then have "raised (run_trial shift e trial s) = None"
    by (simp add: completes_iff)
  then show ?thesis
    by (simp add: trial_events_complete [OF assms(1-5) p] frames_append frames_events
          visual_state_of_screen)
qed

section \<open>Lemmas on float rounding and the baseline\<close>

lemma round_half_even_le:
  assumes "y \<le> of_int m"
  shows "round_half_even y \<le> m"
proof -
  have f: "\<lfloor>y\<rfloor> \<le> m"
    using assms by (simp add: floor_le_iff)
  show ?thesis
  proof (cases "\<lfloor>y\<rfloor> = m")
    case True
    then have "y = of_int m"
      using assms by linarith
    then show ?thesis
      by (simp add: round_half_even_def)
  next
    case False
    with f have "\<lfloor>y\<rfloor> + 1 \<le> m" by simp
    then show ?thesis
      using f by (simp add: round_half_even_def Let_def)
  qed
qed

lemma round_half_even_ge:
  assumes "of_int m \<le> y"
  shows "m \<le> round_half_even y"
proof -
  have "m \<le> \<lfloor>y\<rfloor>"
    using assms by (simp add: le_floor_iff)
  then show ?thesis
    by (simp add: round_half_even_def Let_def)
qed

lemma double_exponent_le:
  assumes "\<bar>x\<bar> < 2 ^ 53"
  shows "double_exponent x \<le> 52"
proof -
  have "\<bar>x\<bar> * 2 ^ 1074 < 2 ^ 53 * 2 ^ 1074"
    using assms by (intro mult_strict_right_mono) simp_all
  also have "(2::real) ^ 53 * 2 ^ 1074 = 2 ^ (53 + 1074)"
    by (rule power_add [symmetric])
  also have "\<dots> = (2::real) ^ 1127"
    by (simp del: power_numeral)
  finally have "\<lfloor>\<bar>x\<bar> * 2 ^ 1074\<rfloor> < 2 ^ 1127"
    by (simp add: floor_less_iff del: power_numeral)
  then have "bitlen \<lfloor>\<bar>x\<bar> * 2 ^ 1074\<rfloor> \<le> 1127"
    by (simp add: bitlen_le_iff_power del: power_numeral)
  then show ?thesis
    by (simp add: double_exponent_def del: power_numeral)
qed

lemma powi_shift: "(2::real) powi (k + int n) = 2 powi k * 2 ^ n"
  by (simp add: power_int_add)

lemma double_exponent_eq:
  assumes "2 powi k \<le> \<bar>x\<bar>" "\<bar>x\<bar> < 2 powi (k + 1)" "- 1022 \<le> k"
  shows "double_exponent x = k"
proof -
  let ?n = "\<lfloor>\<bar>x\<bar> * 2 ^ 1074\<rfloor>"
  have lo: "(2::real) ^ nat (k + 1074) \<le> \<bar>x\<bar> * 2 ^ 1074"
  proof -
    have "(2::real) ^ nat (k + 1074) = 2 powi (k + 1074)"
      using assms(3) by (simp add: power_int_def del: power_numeral)
    also have "\<dots> = 2 powi k * 2 ^ 1074"
      using powi_shift [of k 1074] by (simp del: power_numeral)
    also have "\<dots> \<le> \<bar>x\<bar> * 2 ^ 1074"
      using assms(1) by (intro mult_right_mono) simp_all
    finally show ?thesis .
  qed
  have hi: "\<bar>x\<bar> * 2 ^ 1074 < (2::real) ^ nat (k + 1075)"
  proof -
    have "\<bar>x\<bar> * 2 ^ 1074 < 2 powi (k + 1) * 2 ^ 1074"
      using assms(2) by (intro mult_strict_right_mono) simp_all
    also have "\<dots> = 2 powi (k + 1075)"
      using powi_shift [of "k + 1" 1074] by (simp add: add.assoc del: power_numeral)
    also have "\<dots> = (2::real) ^ nat (k + 1075)"
      using assms(3) by (simp add: power_int_def del: power_numeral)
    finally show ?thesis .
  qed
  have "(2::int) ^ nat (k + 1074) \<le> ?n"
    using lo by (simp add: le_floor_iff del: power_numeral)
  moreover have "nat (k + 1075) - 1 = nat (k + 1074)"
    using assms(3) by linarith
  ultimately have 1: "k + 1075 \<le> bitlen ?n"
    by (simp add: bitlen_ge_iff_power del: power_numeral)
  have "?n < 2 ^ nat (k + 1075)"
    using hi by (simp add: floor_less_iff del: power_numeral)
  then have 2: "bitlen ?n \<le> k + 1075"
    using assms(3) by (simp add: bitlen_le_iff_power del: power_numeral)
  from 1 2 assms(3) show ?thesis
    by (simp add: double_exponent_def del: power_numeral)
qed

lemma ulp_pos: "0 < ulp x"
  by (simp add: ulp_def)

lemma int_div_ulp:
  assumes "\<bar>x\<bar> < 2 ^ 53"
  shows "\<exists>m. of_int c / ulp x = of_int (m::int)"
proof -
  have "double_exponent x - 52 \<le> 0"
    using double_exponent_le [OF assms] by simp
  then have "ulp x = 1 / 2 ^ nat (- (double_exponent x - 52))"
    by (simp add: ulp_def power_int_def field_simps del: power_numeral)
  then have "of_int c / ulp x = of_int (c * 2 ^ nat (- (double_exponent x - 52)))"
    by simp
  then show ?thesis ..
qed

lemma round_double_bounds:
  assumes "\<bar>x\<bar> < 2 ^ 53" "of_int a \<le> x" "x \<le> of_int b"
  shows "of_int a \<le> round_double x \<and> round_double x \<le> of_int b"
proof -
  obtain m where m: "of_int a / ulp x = of_int (m::int)"
    using int_div_ulp [OF assms(1)] by blast
  obtain n where n: "of_int b / ulp x = of_int (n::int)"
    using int_div_ulp [OF assms(1)] by blast
  have "of_int m \<le> x / ulp x"
    using assms(2) ulp_pos [of x] by (simp add: m [symmetric] divide_right_mono)
  then have "m \<le> round_half_even (x / ulp x)"
    by (rule round_half_even_ge)
  then have "of_int m * ulp x \<le> round_double x"
    using ulp_pos [of x] by (simp add: round_double_def)
  moreover have "of_int m * ulp x = of_int a"
    using ulp_pos [of x] by (simp add: m [symmetric])
  moreover
  have "x / ulp x \<le> of_int n"
    using assms(3) ulp_pos [of x] by (simp add: n [symmetric] divide_right_mono)
  then have "round_half_even (x / ulp x) \<le> n"
    by (rule round_half_even_le)
  then have "round_double x \<le> of_int n * ulp x"
    using ulp_pos [of x] by (simp add: round_double_def)
  moreover have "of_int n * ulp x = of_int b"
    using ulp_pos [of x] by (simp add: n [symmetric])
  ultimately show ?thesis by simp
qed

lemma py_uniform_range:
  assumes "0 \<le> r" "r < 1"
  shows "0 \<le> py_uniform 0 2000 r \<and> py_uniform 0 2000 r \<le> 2000"
proof -
  let ?p = "float_mul 2000 r"
  have "\<bar>2000 * r\<bar> < 2 ^ 53" "of_int 0 \<le> 2000 * r" "2000 * r \<le> of_int 2000"
    using assms by simp_all
  from round_double_bounds [OF this] have p: "0 \<le> ?p" "?p \<le> 2000"
    by (simp_all add: float_mul_def)
  then have "\<bar>0 + ?p\<bar> < 2 ^ 53" "of_int 0 \<le> 0 + ?p" "0 + ?p \<le> of_int 2000"
    by simp_all
  from round_double_bounds [OF this] show ?thesis
    by (simp add: py_uniform_def float_add_def)
qed

lemma baseline_bounds:
  assumes "0 \<le> u" "u \<le> 2000"
  shows "1500 \<le> float_add 1500 u \<and> float_add 1500 u \<le> 3500"
proof -
  have "\<bar>1500 + u\<bar> < 2 ^ 53" "of_int 1500 \<le> 1500 + u" "1500 + u \<le> of_int 3500"
    using assms by simp_all
  from round_double_bounds [OF this] show ?thesis
    by (simp add: float_add_def)
qed

lemma round_double_eval:
  assumes "2 powi k \<le> \<bar>x\<bar>" "\<bar>x\<bar> < 2 powi (k + 1)" "- 1022 \<le> k"
  shows "round_double x = of_int (round_half_even (x / 2 powi (k - 52))) * 2 powi (k - 52)"
  by (simp add: round_double_def ulp_def double_exponent_eq [OF assms])

lemma round_half_even_eval:
  assumes "\<lfloor>y\<rfloor> = f"
  shows "round_half_even y =
     (if y - of_int f < 1 / 2 then f
      else if 1 / 2 < y - of_int f then f + 1
      else if even f then f else f + 1)"
  using assms by (simp add: round_half_even_def Let_def)

lemma mul_draw: "float_mul 2000 (1 - 1 / 2 ^ 53) = 2000 - 1 / 2 ^ 42"
proof -
  let ?x = "2000 * (1 - 1 / 2 ^ 53) :: real"
  have b: "2 powi 10 \<le> \<bar>?x\<bar>" "\<bar>?x\<bar> < 2 powi (10 + 1)" "- 1022 \<le> (10::int)"
    by simp_all
  have y: "?x / 2 powi (10 - 52) = 8796093022207999 + 3 / 128"
    by (simp add: power_int_minus)
  have f: "\<lfloor>8796093022207999 + 3 / 128 :: real\<rfloor> = 8796093022207999"
    by (simp add: floor_eq_iff)
  show ?thesis
    unfolding float_mul_def round_double_eval [OF b] y round_half_even_eval [OF f]
    by (simp add: power_int_minus)
qed

lemma add_zero_draw: "float_add 0 (2000 - 1 / 2 ^ 42) = 2000 - 1 / 2 ^ 42"
proof -
  let ?x = "0 + (2000 - 1 / 2 ^ 42) :: real"
  have b: "2 powi 10 \<le> \<bar>?x\<bar>" "\<bar>?x\<bar> < 2 powi (10 + 1)" "- 1022 \<le> (10::int)"
    by simp_all
  have y: "?x / 2 powi (10 - 52) = 8796093022207999"
    by (simp add: power_int_minus)
  have f: "\<lfloor>8796093022207999 :: real\<rfloor> = 8796093022207999"
    by simp
  show ?thesis
    unfolding float_add_def round_double_eval [OF b] y round_half_even_eval [OF f]
    by (simp add: power_int_minus)
qed

lemma add_baseline: "float_add 1500 (2000 - 1 / 2 ^ 42) = 3500"
proof -
  let ?x = "1500 + (2000 - 1 / 2 ^ 42) :: real"
  have b: "2 powi 11 \<le> \<bar>?x\<bar>" "\<bar>?x\<bar> < 2 powi (11 + 1)" "- 1022 \<le> (11::int)"
    by simp_all
  have y: "?x / 2 powi (11 - 52) = 7696581394431999 + 1 / 2"
    by (simp add: power_int_minus)
  have f: "\<lfloor>7696581394431999 + 1 / 2 :: real\<rfloor> = 7696581394431999"
    by (simp add: floor_eq_iff)
  show ?thesis
    unfolding float_add_def round_double_eval [OF b] y round_half_even_eval [OF f]
    by (simp add: power_int_minus)
qed

lemma py_uniform_0_2000: "py_uniform 0 2000 r = float_add 0 (float_mul 2000 r)"
  by (simp add: py_uniform_def)

lemma uniform_draw: "py_uniform 0 2000 (1 - 1 / 2 ^ 53) = 2000 - 1 / 2 ^ 42"
  unfolding py_uniform_0_2000 mul_draw by (rule add_zero_draw)

lemma add_zero: "float_add 1500 0 = 1500"
proof -
  let ?x = "1500 + 0 :: real"
  have b: "2 powi 10 \<le> \<bar>?x\<bar>" "\<bar>?x\<bar> < 2 powi (10 + 1)" "- 1022 \<le> (10::int)"
    by simp_all
  have y: "?x / 2 powi (10 - 52) = 6597069766656000"
    by (simp add: power_int_minus)
  have f: "\<lfloor>6597069766656000 :: real\<rfloor> = 6597069766656000"
    by simp
  show ?thesis
    unfolding float_add_def round_double_eval [OF b] y round_half_even_eval [OF f]
    by (simp add: power_int_minus)
qed

lemma trial_events_baseline:
  "\<exists>rest. trial_events shift e trial s =
     Frame (screen (position s) Cross_black (PBool False) (PBool False))
     # ClockWait (float_add 1500 (jitter e)) # rest"
proof (cases "completes shift trial s")
  case True
  then obtain cu cd ad fc tp p where
    "trial_events shift e trial s =
           cue_events (position s) e cu cd
           @ target_events (position s) (select_target ad fc) p
           @ response_events (position s) e trial ad"
    by (elim completesE) (rule that, rule trial_events_complete)
  then show ?thesis
    by (simp add: cue_events_def)
next
  case False
  show ?thesis
  proof (cases "map_of trial ''cue_up'' = None \<or> map_of trial ''cue_down'' = None")
    case True
    then show ?thesis
      using cue_phase_Inl [OF True, of e s]
      by (auto simp add: trial_events_def final_def run_trial_def and_then_def)
  next
    case cue: False
    then obtain cu cd where f: "map_of trial ''cue_up'' = Some cu" "map_of trial ''cue_down'' = Some cd"
      by auto
    obtain s1 where s1: "cue_phase e trial s = Inr s1"
      "trace s1 = trace s @ cue_events (position s) e cu cd"
      "position s1 = position s" "target_pos s1 = target_pos s"
      using cue_phase_Inr [OF f] by blast
    have eq: "target_pos (assign_target_pos shift tp s1) = target_pos (assign_target_pos shift tp s)" for tp
      using s1(4) by (simp add: target_pos_assign)
    have "map_of trial ''arrow_direction'' = None
        \<or> map_of trial ''flanker_congruency'' = None
        \<or> (case map_of trial ''target_position'' of
              None \<Rightarrow> True
            | Some tp \<Rightarrow> target_pos (assign_target_pos shift tp s1) = None)"
      using False f by (auto simp add: completes_def eq split: option.splits)
    from target_phase_Inl [OF this]
    obtain err s2 where "target_phase shift trial s1 = Inl (err, s2)" "trace s2 = trace s1"
      by blast
    then show ?thesis
      using s1 by (simp add: trial_events_def final_def run_trial_def and_then_def cue_events_def)
  qed
qed

section \<open>The claims\<close>

text \<open>
  C1. For every trial that completes: the script issues one keyboard wait, with
  \<open>MAX_RESPONSE_DURATION\<close> and no key list, and adds one data row. When the wait
  captured a key, it measured a time, and the row's last entry, the reaction time, is
  that time plus \<open>TARGET_DISPLAY_DURATION\<close>; when it captured no key, the entry
  is \<open>None\<close>.
\<close>

theorem reaction_time_recorded:
  assumes "raised (run_trial shift e trial s) = None"
    and "keyboard_wait None MAX_RESPONSE_DURATION (presses e) = (key, rt)"
  shows "keyboard_waits (trial_events shift e trial s) = [(None, MAX_RESPONSE_DURATION)]
      \<and> (\<exists>row. data_rows (trial_events shift e trial s) = [row]
            \<and> (case key of
                  None \<Rightarrow> last row = PNone
                | Some k \<Rightarrow> \<exists>t. rt = Some t \<and> last row = PInt (t + TARGET_DISPLAY_DURATION)))"
proof -
  from assms(1) have "completes shift trial s"
    by (simp add: completes_iff)
  then obtain cu cd ad fc tp p where
    ev: "trial_events shift e trial s =
           cue_events (position s) e cu cd
           @ target_events (position s) (select_target ad fc) p
           @ response_events (position s) e trial ad"
    by (elim completesE) (rule that, rule trial_events_complete)
  show ?thesis
    using keyboard_wait_cases [of None MAX_RESPONSE_DURATION "presses e"] assms(2)
    by (auto simp add: ev data_rows_append keyboard_waits_append data_rows_events
          keyboard_waits_events adjust_rt_def rt_val_def)
qed

theorem reaction_time_recorded_witness:
  "raised (run_trial 40 \<lparr>jitter = 0, presses = [(350, 102)]\<rparr> example_trial (init_state 40)) = None
   \<and> keyboard_wait None MAX_RESPONSE_DURATION (presses \<lparr>jitter = 0, presses = [(350, 102)]\<rparr>)
       = (Some 102, Some 350)
   \<and> (\<exists>row. data_rows (trial_events 40 \<lparr>jitter = 0, presses = [(350, 102)]\<rparr> example_trial
                 (init_state 40)) = [row]
         \<and> last row = PInt 550)"
proof -
  have h1: "raised (run_trial 40 \<lparr>jitter = 0, presses = [(350, 102)]\<rparr> example_trial (init_state 40)) = None"
    by (simp add: completes_iff example_completes)
  have h2: "keyboard_wait None MAX_RESPONSE_DURATION (presses \<lparr>jitter = 0, presses = [(350, 102)]\<rparr>)
       = (Some 102, Some 350)"
    by (simp add: keyboard_wait_def MAX_RESPONSE_DURATION_def)
  show ?thesis
    using reaction_time_recorded [OF h1 h2] h1 h2
    by (simp add: TARGET_DISPLAY_DURATION_def)
qed

text \<open>
  C6. For every trial that completes, the last frame of the iteration is the feedback
  screen: the cross is green (positive) exactly when a key was captured, the key is one
  of the two response keys and its direction is the trial's \<^verbatim>\<open>arrow_direction\<close>;
  otherwise it is red (negative), which covers a key bound to the opposite direction and
  the timeout without a key.
\<close>

theorem feedback_classification:
  assumes "raised (run_trial shift e trial s) = None"
    and "keyboard_wait None MAX_RESPONSE_DURATION (presses e) = (key, rt)"
    and "map_of trial ''arrow_direction'' = Some ad"
  shows "visual_state_of (last (frames (trial_events shift e trial s)))
           = Some (Fixation (if correct_response key ad then Positive else Negative))"
proof -
  from assms(1) have "completes shift trial s"
    by (simp add: completes_iff)
  then obtain cu cd ad' fc tp p where
    ad': "map_of trial ''arrow_direction'' = Some ad'" and
    ev: "trial_events shift e trial s =
           cue_events (position s) e cu cd
           @ target_events (position s) (select_target ad' fc) p
           @ response_events (position s) e trial ad'"
  proof (elim completesE)
    fix cu cd ad' fc tp p
    assume h: "map_of trial ''cue_up'' = Some cu" "map_of trial ''cue_down'' = Some cd"
      "map_of trial ''arrow_direction'' = Some ad'"
      "map_of trial ''flanker_congruency'' = Some fc"
      "map_of trial ''target_position'' = Some tp"
      "target_pos (assign_target_pos shift tp s) = Some p"
    assume r: "\<And>ad' cu cd fc p. map_of trial ''arrow_direction'' = Some ad' \<Longrightarrow>
        trial_events shift e trial s =
           cue_events (position s) e cu cd
           @ target_events (position s) (select_target ad' fc) p
           @ response_events (position s) e trial ad' \<Longrightarrow> thesis"
    show thesis
      by (rule r [OF h(3) trial_events_complete [OF h]])
  qed
  from ad' assms(3) have "ad' = ad" by simp
  then show ?thesis
    using assms(2)
    by (simp add: ev frames_append frames_events visual_state_of_screen feedback_colour)
qed

theorem feedback_classification_witness:
  "raised (run_trial 40 \<lparr>jitter = 0, presses = [(350, 106)]\<rparr> example_trial (init_state 40)) = None
   \<and> keyboard_wait None MAX_RESPONSE_DURATION (presses \<lparr>jitter = 0, presses = [(350, 106)]\<rparr>)
       = (Some 106, Some 350)
   \<and> map_of example_trial ''arrow_direction'' = Some (PStr ''left'')
   \<and> visual_state_of (last (frames (trial_events 40 \<lparr>jitter = 0, presses = [(350, 106)]\<rparr>
         example_trial (init_state 40)))) = Some (Fixation Negative)"
proof -
  have h1: "raised (run_trial 40 \<lparr>jitter = 0, presses = [(350, 106)]\<rparr> example_trial (init_state 40)) = None"
    by (simp add: completes_iff example_completes)
  have h2: "keyboard_wait None MAX_RESPONSE_DURATION (presses \<lparr>jitter = 0, presses = [(350, 106)]\<rparr>)
       = (Some 106, Some 350)"
    by (simp add: keyboard_wait_def MAX_RESPONSE_DURATION_def)
  have h3: "map_of example_trial ''arrow_direction'' = Some (PStr ''left'')"
    by (simp add: example_fields)
  show ?thesis
    using feedback_classification [OF h1 h2 h3] h1 h2 h3
    by (simp add: correct_response_def bound_direction_def LEFT_RESPONSE_KEY_def
          RIGHT_RESPONSE_KEY_def)
qed

text \<open>
  C7. For every trial that completes, the data row is the trial's cells in column order
  followed by the response key and the reaction time, so that under the variable names
  declared at line 156 every column holds the trial's own value and the two response
  fields come last.
\<close>

theorem record_echoes_trial:
  assumes "raised (run_trial shift e trial s) = None"
  shows "\<exists>key rt. data_rows (trial_events shift e trial s) = [map snd trial @ [key, rt]]
           \<and> zip (data_variable_names (map fst trial)) (map snd trial @ [key, rt])
               = trial @ [(''response_key'', key), (''reaction_time'', rt)]"
proof -
  from assms(1) have "completes shift trial s"
    by (simp add: completes_iff)
  then obtain cu cd ad fc tp p where
    ev: "trial_events shift e trial s =
           cue_events (position s) e cu cd
           @ target_events (position s) (select_target ad fc) p
           @ response_events (position s) e trial ad"
    by (elim completesE) (rule that, rule trial_events_complete)
  have "zip (map fst trial @ [''response_key'', ''reaction_time'']) (map snd trial @ [key, rt])
          = trial @ [(''response_key'', key), (''reaction_time'', rt)]" for key rt
    by (simp add: zip_map_fst_snd)
  then show ?thesis
    by (simp add: ev data_rows_append data_rows_events data_variable_names_def)
qed

theorem record_echoes_trial_witness:
  "raised (run_trial 40 \<lparr>jitter = 0, presses = [(350, 102)]\<rparr> example_trial (init_state 40)) = None
   \<and> (\<exists>key rt. data_rows (trial_events 40 \<lparr>jitter = 0, presses = [(350, 102)]\<rparr> example_trial
                   (init_state 40))
                  = [[PBool True, PBool False, PStr ''left'', PStr ''cong'', PStr ''up'', key, rt]]
         \<and> zip (data_variable_names
                  [''cue_up'', ''cue_down'', ''arrow_direction'', ''flanker_congruency'',
                   ''target_position''])
               [PBool True, PBool False, PStr ''left'', PStr ''cong'', PStr ''up'', key, rt]
             = example_trial @ [(''response_key'', key), (''reaction_time'', rt)])"
proof -
  have h1: "raised (run_trial 40 \<lparr>jitter = 0, presses = [(350, 102)]\<rparr> example_trial (init_state 40)) = None"
    by (simp add: completes_iff example_completes)
  have m: "map snd example_trial = [PBool True, PBool False, PStr ''left'', PStr ''cong'', PStr ''up'']"
    "map fst example_trial = [''cue_up'', ''cue_down'', ''arrow_direction'', ''flanker_congruency'',
                   ''target_position'']"
    by (simp_all add: example_trial_def)
  show ?thesis
    using record_echoes_trial [OF h1] h1 by (simp add: m)
qed

text \<open>
  C10. Target selection does not validate its inputs. For a trial with the five columns
  and a target position of \<^verbatim>\<open>'up'\<close> or \<^verbatim>\<open>'down'\<close>, whatever the values of
  \<^verbatim>\<open>arrow_direction\<close> and \<^verbatim>\<open>flanker_congruency\<close>, the iteration raises
  nothing and its fifth frame shows the selected target; a direction other than
  \<^verbatim>\<open>'left'\<close> selects a line whose central arrow points right, a congruency
  other than \<^verbatim>\<open>'cong'\<close> a line whose flankers differ from the central arrow.
\<close>

theorem target_selection_unvalidated:
  assumes "map_of trial ''cue_up'' = Some cu" "map_of trial ''cue_down'' = Some cd"
    "map_of trial ''arrow_direction'' = Some ad"
    "map_of trial ''flanker_congruency'' = Some fc"
    "map_of trial ''target_position'' = Some tp"
    "py_eq_str tp ''up'' \<or> py_eq_str tp ''down''"
  shows "raised (run_trial shift e trial s) = None
      \<and> (\<exists>p. visual_state_of (frames (trial_events shift e trial s) ! 4)
               = Some (Fixation_target (select_target ad fc) p))
      \<and> (\<not> py_eq_str ad ''left'' \<longrightarrow> points_right (select_target ad fc))
      \<and> (\<not> py_eq_str fc ''cong'' \<longrightarrow> incongruent (select_target ad fc))"
proof -
  note p = valid_position_bound [OF assms(6), of shift s]
  have "completes shift trial s"
    using assms(1-5) p by (simp add: completes_def)
  then have "raised (run_trial shift e trial s) = None"
    by (simp add: completes_iff)
  moreover have "\<exists>p. visual_state_of (frames (trial_events shift e trial s) ! 4)
               = Some (Fixation_target (select_target ad fc) p)"
    by (simp add: trial_events_complete [OF assms(1-5) p] frames_append frames_events
          visual_state_of_screen)
  ultimately show ?thesis
    by (simp add: select_target_reading)
qed

theorem target_selection_unvalidated_witness:
  "map_of [(''cue_up'', PBool False), (''cue_down'', PBool False),
           (''arrow_direction'', PStr ''Left''), (''flanker_congruency'', PStr ''congruent''),
           (''target_position'', PStr ''down'')] ''arrow_direction'' = Some (PStr ''Left'')
   \<and> (py_eq_str (PStr ''down'') ''up'' \<or> py_eq_str (PStr ''down'') ''down'')
   \<and> \<not> py_eq_str (PStr ''Left'') ''left'' \<and> \<not> py_eq_str (PStr ''congruent'') ''cong''
   \<and> raised (run_trial 40 \<lparr>jitter = 0, presses = []\<rparr>
        [(''cue_up'', PBool False), (''cue_down'', PBool False),
         (''arrow_direction'', PStr ''Left''), (''flanker_congruency'', PStr ''congruent''),
         (''target_position'', PStr ''down'')] (init_state 40)) = None
   \<and> select_target (PStr ''Left'') (PStr ''congruent'') = Arrows_incong_right
   \<and> points_right (select_target (PStr ''Left'') (PStr ''congruent''))
   \<and> incongruent (select_target (PStr ''Left'') (PStr ''congruent''))"
proof -
  let ?t = "[(''cue_up'', PBool False), (''cue_down'', PBool False),
           (''arrow_direction'', PStr ''Left''), (''flanker_congruency'', PStr ''congruent''),
           (''target_position'', PStr ''down'')]"
  have f: "map_of ?t ''cue_up'' = Some (PBool False)" "map_of ?t ''cue_down'' = Some (PBool False)"
    "map_of ?t ''arrow_direction'' = Some (PStr ''Left'')"
    "map_of ?t ''flanker_congruency'' = Some (PStr ''congruent'')"
    "map_of ?t ''target_position'' = Some (PStr ''down'')"
    by simp_all
  have v: "py_eq_str (PStr ''down'') ''up'' \<or> py_eq_str (PStr ''down'') ''down''"
    by simp
  have n: "\<not> py_eq_str (PStr ''Left'') ''left''" "\<not> py_eq_str (PStr ''congruent'') ''cong''"
    by simp_all
  show ?thesis
    using target_selection_unvalidated [OF f v, of 40 "\<lparr>jitter = 0, presses = []\<rparr>" "init_state 40"] f(3) v n
    by (simp add: select_target_def)
qed

text \<open>
  C4, as the code has it. The script validates nothing and has no configuration error:
  a trial with the five columns whose target position is \<^verbatim>\<open>'up'\<close> or
  \<^verbatim>\<open>'down'\<close> never raises, whatever its \<^verbatim>\<open>arrow_direction\<close> holds. The
  first theorem is the claim's failure on a trial with an unrecognized direction, which
  runs to its end.
\<close>

theorem unknown_direction_not_rejected:
  "raised (run_trial 40 \<lparr>jitter = 0, presses = []\<rparr>
     [(''cue_up'', PBool True), (''cue_down'', PBool False),
      (''arrow_direction'', PStr ''sideways''), (''flanker_congruency'', PStr ''cong''),
      (''target_position'', PStr ''up'')] (init_state 40)) = None"
  by (simp add: completes_iff completes_def target_pos_assign)

text \<open>
  C4, amended: for every trial with the five columns and a target position of
  \<^verbatim>\<open>'up'\<close> or \<^verbatim>\<open>'down'\<close>, running the trial never raises, for any value
  of \<^verbatim>\<open>arrow_direction\<close>.
\<close>

theorem valid_trial_never_raises:
  assumes "map_of trial ''cue_up'' = Some cu" "map_of trial ''cue_down'' = Some cd"
    "map_of trial ''arrow_direction'' = Some ad"
    "map_of trial ''flanker_congruency'' = Some fc"
    "map_of trial ''target_position'' = Some tp"
    "py_eq_str tp ''up'' \<or> py_eq_str tp ''down''"
  shows "raised (run_trial shift e trial s) = None"
  using assms(1-5) valid_position_bound [OF assms(6), of shift s]
  by (simp add: completes_iff completes_def)

theorem valid_trial_never_raises_witness:
  "map_of example_trial ''target_position'' = Some (PStr ''up'')
   \<and> (py_eq_str (PStr ''up'') ''up'' \<or> py_eq_str (PStr ''up'') ''down'')
   \<and> raised (run_trial 40 \<lparr>jitter = 0, presses = []\<rparr> example_trial (init_state 40)) = None"
proof -
  have v: "py_eq_str (PStr ''up'') ''up'' \<or> py_eq_str (PStr ''up'') ''down''"
    by simp
  show ?thesis
    using valid_trial_never_raises [OF example_fields v, of 40 "\<lparr>jitter = 0, presses = []\<rparr>" "init_state 40"]
      example_fields(5) v
    by simp
qed

text \<open>
  C2, as the code has it. The keyboard wait that follows the target phase is given the
  full \<open>MAX_RESPONSE_DURATION\<close>, not what is left of it: it starts after the target
  has been shown for \<open>TARGET_DISPLAY_DURATION\<close> and the neutral screen is back, so
  a recorded reaction time, counted from target onset, is below
  \<open>TARGET_DISPLAY_DURATION + MAX_RESPONSE_DURATION\<close>. The first theorem is the
  claim's failure: a press 1600 ms into the wait is accepted and recorded as 1800 ms.
\<close>

theorem full_window_after_target:
  "keyboard_waits (trial_events 40 \<lparr>jitter = 0, presses = [(1600, 102)]\<rparr> example_trial
      (init_state 40)) = [(None, 1700)]
   \<and> MAX_RESPONSE_DURATION - TARGET_DISPLAY_DURATION = 1500
   \<and> data_rows (trial_events 40 \<lparr>jitter = 0, presses = [(1600, 102)]\<rparr> example_trial
        (init_state 40))
       = [[PBool True, PBool False, PStr ''left'', PStr ''cong'', PStr ''up'', PInt 102, PInt 1800]]
   \<and> MAX_RESPONSE_DURATION < 1800"
  by (simp add: example_trace example_response keyboard_wait_def key_val_def rt_val_def
        adjust_rt_def MAX_RESPONSE_DURATION_def TARGET_DISPLAY_DURATION_def)

text \<open>
  C2, amended: for every trial that completes there is one keyboard wait, with duration
  \<open>MAX_RESPONSE_DURATION\<close>, issued right after the target frame, the wait of
  \<open>TARGET_DISPLAY_DURATION\<close> and the neutral frame; the recorded reaction time is
  \<open>None\<close> or below \<open>TARGET_DISPLAY_DURATION + MAX_RESPONSE_DURATION\<close>.
\<close>

theorem response_window:
  assumes "raised (run_trial shift e trial s) = None"
  shows "keyboard_waits (trial_events shift e trial s) = [(None, MAX_RESPONSE_DURATION)]
      \<and> (\<exists>pre tf nf row post.
            trial_events shift e trial s =
              pre @ [Frame tf, ClockWait (of_int TARGET_DISPLAY_DURATION), Frame nf,
                     KeyboardWait None MAX_RESPONSE_DURATION, DataAdd row] @ post
            \<and> (\<exists>a p. visual_state_of tf = Some (Fixation_target a p))
            \<and> visual_state_of nf = Some (Fixation Neutral)
            \<and> (last row = PNone
                \<or> (\<exists>t. last row = PInt t
                       \<and> t < TARGET_DISPLAY_DURATION + MAX_RESPONSE_DURATION)))"
proof -
  from assms(1) have "completes shift trial s"
    by (simp add: completes_iff)
  then obtain cu cd ad fc tp p where
    ev: "trial_events shift e trial s =
           cue_events (position s) e cu cd
           @ target_events (position s) (select_target ad fc) p
           @ response_events (position s) e trial ad"
    by (elim completesE) (rule that, rule trial_events_complete)
  let ?n = "screen (position s) Cross_black (PBool False) (PBool False)"
  let ?kw = "keyboard_wait None MAX_RESPONSE_DURATION (presses e)"
  let ?row = "map snd trial @ [key_val (fst ?kw), rt_val (adjust_rt (snd ?kw))]"
  let ?post = "[Frame (screen (position s) (feedback_cross (fst ?kw) ad) (PBool False) (PBool False)),
                ClockWait 400]"
  have split: "trial_events shift e trial s =
      (cue_events (position s) e cu cd @ [Frame ?n])
      @ [Frame (?n @ [(select_target ad fc, p)]), ClockWait (of_int TARGET_DISPLAY_DURATION),
         Frame ?n, KeyboardWait None MAX_RESPONSE_DURATION, DataAdd ?row] @ ?post"
    by (simp add: ev target_events_def response_events_def split: prod.splits)
  have row: "last ?row = PNone
      \<or> (\<exists>t. last ?row = PInt t \<and> t < TARGET_DISPLAY_DURATION + MAX_RESPONSE_DURATION)"
    using keyboard_wait_cases [of None MAX_RESPONSE_DURATION "presses e"]
    by (auto simp add: adjust_rt_def rt_val_def)
  have vs: "\<exists>a q. visual_state_of (?n @ [(select_target ad fc, p)]) = Some (Fixation_target a q)"
    "visual_state_of ?n = Some (Fixation Neutral)"
    by (simp_all add: visual_state_of_screen)
  have kw: "keyboard_waits (trial_events shift e trial s) = [(None, MAX_RESPONSE_DURATION)]"
    by (simp add: ev keyboard_waits_append keyboard_waits_events)
  show ?thesis
    using split row vs kw by blast
qed

theorem response_window_witness:
  "raised (run_trial 40 \<lparr>jitter = 0, presses = [(1600, 102)]\<rparr> example_trial (init_state 40)) = None
   \<and> keyboard_waits (trial_events 40 \<lparr>jitter = 0, presses = [(1600, 102)]\<rparr> example_trial
        (init_state 40)) = [(None, 1700)]"
proof -
  have h1: "raised (run_trial 40 \<lparr>jitter = 0, presses = [(1600, 102)]\<rparr> example_trial (init_state 40)) = None"
    by (simp add: completes_iff example_completes)
  show ?thesis
    using response_window [OF h1] h1 by (simp add: MAX_RESPONSE_DURATION_def)
qed

text \<open>
  C3, as the code has it. The keyboard wait of line 201 names no keys, so the first key
  pressed ends it, whichever key it is. The first theorem is the claim's failure: the
  key 97 (a), pressed at 350 ms, is recorded with its reaction time, and the press of the
  left response key that follows at 600 ms is never seen; with no press at all, the row
  ends with two \<open>None\<close>.
\<close>

theorem unrecognized_key_ends_wait:
  "data_rows (trial_events 40 \<lparr>jitter = 0, presses = [(350, 97), (600, 102)]\<rparr> example_trial
      (init_state 40))
     = [[PBool True, PBool False, PStr ''left'', PStr ''cong'', PStr ''up'', PInt 97, PInt 550]]
   \<and> data_rows (trial_events 40 \<lparr>jitter = 0, presses = []\<rparr> example_trial (init_state 40))
     = [[PBool True, PBool False, PStr ''left'', PStr ''cong'', PStr ''up'', PNone, PNone]]
   \<and> bound_direction 97 = None"
  by (simp add: example_trace example_response keyboard_wait_def key_val_def rt_val_def
        adjust_rt_def TARGET_DISPLAY_DURATION_def bound_direction_def LEFT_RESPONSE_KEY_def
        RIGHT_RESPONSE_KEY_def)

text \<open>
  C3, amended: for every trial that completes, a first key press that comes before
  \<open>MAX_RESPONSE_DURATION\<close> and is not one of the two response keys ends the wait,
  is recorded as the response key with its time plus \<open>TARGET_DISPLAY_DURATION\<close>,
  and gets the negative feedback, the feedback of a timeout.
\<close>

theorem unrecognized_key_recorded:
  assumes "raised (run_trial shift e trial s) = None"
    and "presses e = (t, k) # ps" and "t < MAX_RESPONSE_DURATION"
    and "bound_direction k = None"
  shows "keyboard_waits (trial_events shift e trial s) = [(None, MAX_RESPONSE_DURATION)]
      \<and> data_rows (trial_events shift e trial s)
          = [map snd trial @ [PInt k, PInt (t + TARGET_DISPLAY_DURATION)]]
      \<and> visual_state_of (last (frames (trial_events shift e trial s)))
          = Some (Fixation Negative)"
proof -
  from assms(1) have "completes shift trial s"
    by (simp add: completes_iff)
  then obtain cu cd ad fc tp p where
    ev: "trial_events shift e trial s =
           cue_events (position s) e cu cd
           @ target_events (position s) (select_target ad fc) p
           @ response_events (position s) e trial ad"
    by (elim completesE) (rule that, rule trial_events_complete)
  have kw: "keyboard_wait None MAX_RESPONSE_DURATION (presses e) = (Some k, Some t)"
    using assms(2,3) by (simp add: keyboard_wait_def)
  have "\<not> correct_response (Some k) ad"
    using assms(4) by (simp add: correct_response_def)
  then show ?thesis
    by (simp add: ev kw data_rows_append data_rows_events keyboard_waits_append
          keyboard_waits_events frames_append frames_events visual_state_of_screen
          feedback_colour key_val_def rt_val_def adjust_rt_def)
qed

theorem unrecognized_key_recorded_witness:
  "raised (run_trial 40 \<lparr>jitter = 0, presses = [(350, 97), (600, 102)]\<rparr> example_trial
     (init_state 40)) = None
   \<and> (350::int) < MAX_RESPONSE_DURATION \<and> bound_direction 97 = None
   \<and> data_rows (trial_events 40 \<lparr>jitter = 0, presses = [(350, 97), (600, 102)]\<rparr> example_trial
        (init_state 40))
       = [map snd example_trial @ [PInt 97, PInt 550]]
   \<and> visual_state_of (last (frames (trial_events 40
        \<lparr>jitter = 0, presses = [(350, 97), (600, 102)]\<rparr> example_trial (init_state 40))))
       = Some (Fixation Negative)"
proof -
  let ?e = "\<lparr>jitter = 0, presses = [(350, 97), (600, 102)]\<rparr>"
  have h1: "raised (run_trial 40 ?e example_trial (init_state 40)) = None"
    by (simp add: completes_iff example_completes)
  have h2: "presses ?e = (350, 97) # [(600, 102)]"
    by simp
  have h3: "(350::int) < MAX_RESPONSE_DURATION"
    by (simp add: MAX_RESPONSE_DURATION_def)
  have h4: "bound_direction 97 = None"
    by (simp add: bound_direction_def LEFT_RESPONSE_KEY_def RIGHT_RESPONSE_KEY_def)
  show ?thesis
    using unrecognized_key_recorded [OF h1 h2 h3 h4] h1 h3 h4
    by (simp add: TARGET_DISPLAY_DURATION_def)
qed

text \<open>
  C5, as the code has it. The data row is added at line 204, before the feedback. The
  first theorem is the claim's failure: after the row of the example trial has been
  added, the iteration still commits the feedback frame and waits 400 ms.
\<close>

theorem record_added_before_feedback:
  "events_after_record (trial_events 40 \<lparr>jitter = 0, presses = []\<rparr> example_trial (init_state 40))
     = [Frame [(Cross_red, [0, 0]), (Box_top, [0, 40]), (Box_bottom, [0, - 40])],
        ClockWait 400]"
  by (simp add: example_trace example_response events_after_record_def keyboard_wait_def
        feedback_cross_def feedback_cross_type_def)

text \<open>
  C5, amended: for every trial that completes, the data row is added right after the
  keyboard wait returns, and the feedback frame and its wait of 400 ms follow it; a
  trial that raises adds no row.
\<close>

theorem record_follows_response:
  "(raised (run_trial shift e trial s) = None \<longrightarrow>
      (\<exists>pre row fb c.
         trial_events shift e trial s =
           pre @ [KeyboardWait None MAX_RESPONSE_DURATION, DataAdd row, Frame fb, ClockWait 400]
         \<and> data_rows pre = [] \<and> keyboard_waits pre = []
         \<and> visual_state_of fb = Some (Fixation c) \<and> c \<noteq> Neutral))
   \<and> (raised (run_trial shift e trial s) \<noteq> None \<longrightarrow>
        data_rows (trial_events shift e trial s) = [])"
proof (intro conjI impI)
  assume "raised (run_trial shift e trial s) = None"
  then have "completes shift trial s"
    by (simp add: completes_iff)
  then obtain cu cd ad fc tp p where
    ev: "trial_events shift e trial s =
           cue_events (position s) e cu cd
           @ target_events (position s) (select_target ad fc) p
           @ response_events (position s) e trial ad"
    by (elim completesE) (rule that, rule trial_events_complete)
  let ?kw = "keyboard_wait None MAX_RESPONSE_DURATION (presses e)"
  let ?pre = "cue_events (position s) e cu cd @ target_events (position s) (select_target ad fc) p"
  let ?row = "map snd trial @ [key_val (fst ?kw), rt_val (adjust_rt (snd ?kw))]"
  let ?fb = "screen (position s) (feedback_cross (fst ?kw) ad) (PBool False) (PBool False)"
  let ?c = "if correct_response (fst ?kw) ad then Positive else Negative"
  have 1: "trial_events shift e trial s =
      ?pre @ [KeyboardWait None MAX_RESPONSE_DURATION, DataAdd ?row, Frame ?fb, ClockWait 400]"
    by (simp add: ev response_events_def split: prod.splits)
  have 2: "data_rows ?pre = []" "keyboard_waits ?pre = []"
    by (simp_all add: data_rows_append data_rows_events keyboard_waits_append keyboard_waits_events)
  have 3: "visual_state_of ?fb = Some (Fixation ?c)" "?c \<noteq> Neutral"
    by (simp_all add: visual_state_of_screen feedback_colour)
  show "\<exists>pre row fb c.
         trial_events shift e trial s =
           pre @ [KeyboardWait None MAX_RESPONSE_DURATION, DataAdd row, Frame fb, ClockWait 400]
         \<and> data_rows pre = [] \<and> keyboard_waits pre = []
         \<and> visual_state_of fb = Some (Fixation c) \<and> c \<noteq> Neutral"
    using 1 2 3 by blast
next
  assume "raised (run_trial shift e trial s) \<noteq> None"
  then have "\<not> completes shift trial s"
    by (simp add: completes_iff)
  then show "data_rows (trial_events shift e trial s) = []"
    by (rule trial_events_raise)
qed

theorem record_follows_response_witness:
  "raised (run_trial 40 \<lparr>jitter = 0, presses = []\<rparr> example_trial (init_state 40)) = None
   \<and> (\<exists>pre row fb c.
         trial_events 40 \<lparr>jitter = 0, presses = []\<rparr> example_trial (init_state 40) =
           pre @ [KeyboardWait None MAX_RESPONSE_DURATION, DataAdd row, Frame fb, ClockWait 400]
         \<and> data_rows pre = [] \<and> keyboard_waits pre = []
         \<and> visual_state_of fb = Some (Fixation c) \<and> c \<noteq> Neutral)
   \<and> raised (run_trial 40 \<lparr>jitter = 0, presses = []\<rparr>
        [(''cue_up'', PBool True), (''cue_down'', PBool False),
         (''arrow_direction'', PStr ''left''), (''flanker_congruency'', PStr ''cong''),
         (''target_position'', PStr ''middle'')] (init_state 40)) \<noteq> None
   \<and> data_rows (trial_events 40 \<lparr>jitter = 0, presses = []\<rparr>
        [(''cue_up'', PBool True), (''cue_down'', PBool False),
         (''arrow_direction'', PStr ''left''), (''flanker_congruency'', PStr ''cong''),
         (''target_position'', PStr ''middle'')] (init_state 40)) = []"
proof -
  let ?e = "\<lparr>jitter = 0, presses = []\<rparr>"
  let ?bad = "[(''cue_up'', PBool True), (''cue_down'', PBool False),
         (''arrow_direction'', PStr ''left''), (''flanker_congruency'', PStr ''cong''),
         (''target_position'', PStr ''middle'')]"
  have h1: "raised (run_trial 40 ?e example_trial (init_state 40)) = None"
    by (simp add: completes_iff example_completes)
  have h2: "raised (run_trial 40 ?e ?bad (init_state 40)) \<noteq> None"
    by (simp add: completes_iff completes_def target_pos_assign init_state_def)
  show ?thesis
    using record_follows_response [of 40 ?e example_trial "init_state 40"]
      record_follows_response [of 40 ?e ?bad "init_state 40"] h1 h2
    by simp
qed

text \<open>
  C9, as the code has it. \<open>display\<close> always commits a frame, and line 196 calls it
  before the target is drawn over the screen by a second commit. The first theorem is the
  claim's failure: the example trial, with the top cue only, commits seven frames, the
  neutral screen twice in a row before the target.
\<close>

theorem seven_frames_rendered:
  "map visual_state_of (frames (trial_events 40 \<lparr>jitter = 0, presses = []\<rparr> example_trial
      (init_state 40)))
     = [Some (Fixation Neutral), Some Fixation_cueTop, Some (Fixation Neutral),
        Some (Fixation Neutral), Some (Fixation_target Arrows_cong_left [0, 40]),
        Some (Fixation Neutral), Some (Fixation Negative)]
   \<and> map visual_state_of (frames (trial_events 40 \<lparr>jitter = 0, presses = []\<rparr> example_trial
      (init_state 40)))
     \<noteq> [Some (Fixation Neutral), Some Fixation_cueTop, Some (Fixation Neutral),
        Some (Fixation_target Arrows_cong_left [0, 40]),
        Some (Fixation Neutral), Some (Fixation Negative)]"
  by (simp add: example_trace example_response keyboard_wait_def
        feedback_cross_def feedback_cross_type_def)

text \<open>
  C9, amended: for every trial with the five columns, a target position of
  \<^verbatim>\<open>'up'\<close> or \<^verbatim>\<open>'down'\<close>, a true \<^verbatim>\<open>cue_up\<close> and a false
  \<^verbatim>\<open>cue_down\<close>, the committed frames are exactly: neutral fixation, fixation
  with the top cue, neutral fixation, neutral fixation again, fixation with the target,
  neutral fixation, fixation in the feedback colour.
\<close>

theorem render_sequence:
  assumes "map_of trial ''cue_up'' = Some cu" "map_of trial ''cue_down'' = Some cd"
    "map_of trial ''arrow_direction'' = Some ad"
    "map_of trial ''flanker_congruency'' = Some fc"
    "map_of trial ''target_position'' = Some tp"
    "py_eq_str tp ''up'' \<or> py_eq_str tp ''down''"
    "truthy cu" "\<not> truthy cd"
    "keyboard_wait None MAX_RESPONSE_DURATION (presses e) = (key, rt)"
  shows "raised (run_trial shift e trial s) = None
      \<and> map visual_state_of (frames (trial_events shift e trial s))
        = [Some (Fixation Neutral), Some Fixation_cueTop, Some (Fixation Neutral),
           Some (Fixation Neutral),
           Some (Fixation_target (select_target ad fc)
                   (if py_eq_str tp ''up'' then [0, shift] else [0, - shift])),
           Some (Fixation Neutral),
           Some (Fixation (if correct_response key ad then Positive else Negative))]"
proof -
  note p = valid_position_bound [OF assms(6), of shift s]
  have "completes shift trial s"
    using assms(1-5) p by (simp add: completes_def)
  then have "raised (run_trial shift e trial s) = None"
    by (simp add: completes_iff)
  moreover have "map visual_state_of (frames (trial_events shift e trial s))
        = [Some (Fixation Neutral), Some Fixation_cueTop, Some (Fixation Neutral),
           Some (Fixation Neutral),
           Some (Fixation_target (select_target ad fc)
                   (if py_eq_str tp ''up'' then [0, shift] else [0, - shift])),
           Some (Fixation Neutral),
           Some (Fixation (if correct_response key ad then Positive else Negative))]"
    using assms(7,8,9)
    by (simp add: trial_events_complete [OF assms(1-5) p] frames_append frames_events
          visual_state_of_screen feedback_colour)
  ultimately show ?thesis ..
qed

theorem render_sequence_witness:
  "map_of example_trial ''cue_up'' = Some (PBool True)
   \<and> map_of example_trial ''cue_down'' = Some (PBool False)
   \<and> (py_eq_str (PStr ''up'') ''up'' \<or> py_eq_str (PStr ''up'') ''down'')
   \<and> truthy (PBool True) \<and> \<not> truthy (PBool False)
   \<and> keyboard_wait None MAX_RESPONSE_DURATION (presses \<lparr>jitter = 0, presses = [(350, 102)]\<rparr>)
       = (Some 102, Some 350)
   \<and> map visual_state_of (frames (trial_events 40 \<lparr>jitter = 0, presses = [(350, 102)]\<rparr>
        example_trial (init_state 40)))
       = [Some (Fixation Neutral), Some Fixation_cueTop, Some (Fixation Neutral),
          Some (Fixation Neutral), Some (Fixation_target Arrows_cong_left [0, 40]),
          Some (Fixation Neutral), Some (Fixation Positive)]"
proof -
  let ?e = "\<lparr>jitter = 0, presses = [(350, 102)]\<rparr>"
  have v: "py_eq_str (PStr ''up'') ''up'' \<or> py_eq_str (PStr ''up'') ''down''"
    by simp
  have t: "truthy (PBool True)" "\<not> truthy (PBool False)"
    by simp_all
  have k: "keyboard_wait None MAX_RESPONSE_DURATION (presses ?e) = (Some 102, Some 350)"
    by (simp add: keyboard_wait_def MAX_RESPONSE_DURATION_def)
  show ?thesis
    using render_sequence [OF example_fields v t k, of 40 "init_state 40"] example_fields(1,2) v t k
    by (simp add: select_target_def correct_response_def bound_direction_def
          LEFT_RESPONSE_KEY_def)
qed

text \<open>
  C8, as the code has it. Line 170 waits \<^verbatim>\<open>1500 + random.uniform(0, 2000)\<close>, a
  float sum. The first theorem is the claim's failure: for the largest value of
  \<^verbatim>\<open>random()\<close> the draw is \<open>2000 - 1 / 2 ^ 42\<close>, the exact sum lies halfway
  between two doubles and rounds to 3500, so the baseline wait is 3500, outside the
  half-open interval.
\<close>

theorem baseline_reaches_3500:
  "py_uniform 0 2000 (1 - 1 / 2 ^ 53) = 2000 - 1 / 2 ^ 42
   \<and> trial_events 40 \<lparr>jitter = 2000 - 1 / 2 ^ 42, presses = []\<rparr> example_trial (init_state 40) ! 1
       = ClockWait 3500
   \<and> \<not> (3500 :: real) < 3500"
  by (simp only: uniform_draw example_trace env.simps add_baseline nth_Cons_Suc nth_Cons_0
        append_Cons One_nat_def less_irrefl not_False_eq_True simp_thms)

text \<open>
  C8, amended: for every trial, whether it completes or raises, the iteration starts with
  the neutral fixation frame and a wait of 1500 plus the trial's own draw of
  \<^verbatim>\<open>random.uniform(0, 2000)\<close>, and for every value \<^verbatim>\<open>random()\<close> can return
  that wait lies in the closed interval from 1500 to 3500.
\<close>

theorem baseline_range:
  assumes "0 \<le> r" "r < 1" "jitter e = py_uniform 0 2000 r"
  shows "\<exists>f d rest. trial_events shift e trial s = Frame f # ClockWait d # rest
           \<and> visual_state_of f = Some (Fixation Neutral)
           \<and> d = float_add 1500 (jitter e) \<and> 1500 \<le> d \<and> d \<le> 3500"
proof -
  obtain rest where ev: "trial_events shift e trial s =
     Frame (screen (position s) Cross_black (PBool False) (PBool False))
     # ClockWait (float_add 1500 (jitter e)) # rest"
    using trial_events_baseline by blast
  have "0 \<le> jitter e" "jitter e \<le> 2000"
    using py_uniform_range [OF assms(1,2)] assms(3) by simp_all
  then have "1500 \<le> float_add 1500 (jitter e)" "float_add 1500 (jitter e) \<le> 3500"
    using baseline_bounds by simp_all
  moreover have "visual_state_of (screen (position s) Cross_black (PBool False) (PBool False))
      = Some (Fixation Neutral)"
    by (simp add: visual_state_of_screen)
  ultimately show ?thesis
    using ev by blast
qed

theorem baseline_range_witness:
  "(0::real) \<le> 1 - 1 / 2 ^ 53 \<and> (1 - 1 / 2 ^ 53 :: real) < 1
   \<and> jitter \<lparr>jitter = 2000 - 1 / 2 ^ 42, presses = []\<rparr> = py_uniform 0 2000 (1 - 1 / 2 ^ 53)
   \<and> (\<exists>f d rest. trial_events 40 \<lparr>jitter = 2000 - 1 / 2 ^ 42, presses = []\<rparr> example_trial
          (init_state 40) = Frame f # ClockWait d # rest
         \<and> visual_state_of f = Some (Fixation Neutral)
         \<and> d = float_add 1500 (jitter \<lparr>jitter = 2000 - 1 / 2 ^ 42, presses = []\<rparr>)
         \<and> 1500 \<le> d \<and> d \<le> 3500)"
proof -
  have h1: "(0::real) \<le> 1 - 1 / 2 ^ 53"
    by simp
  have h2: "(1 - 1 / 2 ^ 53 :: real) < 1"
    by simp
  have h3: "jitter \<lparr>jitter = 2000 - 1 / 2 ^ 42, presses = []\<rparr> = py_uniform 0 2000 (1 - 1 / 2 ^ 53)"
    by (simp only: uniform_draw env.simps)
  from baseline_range [OF h1 h2 h3, of 40 example_trial "init_state 40"] h1 h2 h3
  show ?thesis
    by blast
qed

end
